theory Spec2Isabelle
  imports Complex_Main "HOL-Library.AList"
begin

section \<open>Shared model: text, errors, the file system and the log\<close>

text \<open>
  A Python \<open>str\<close> is a sequence of Unicode code points. A code point is a natural
  number, so that \<open>len\<close> counts what Python counts. A path is the string the program
  passes to the operating system, as the bytes of its encoding.
\<close>

type_synonym codepoint = nat
type_synonym str = "codepoint list"
type_synonym path = string

definition text_of :: "string \<Rightarrow> str" where
  "text_of s = map (of_char :: char \<Rightarrow> nat) s"

text \<open>
  The exceptions the two scripts can meet. Operating-system errors keep their class only;
  a \<open>ValueError\<close> keeps its message, because the scripts raise one themselves.
  \<open>LibraryError\<close> stands for whatever the CSV parser of pandas raises on content it
  rejects (\<open>EmptyDataError\<close>, \<open>ParserError\<close>).
\<close>

datatype error =
    FileNotFoundError
  | NotADirectoryError
  | IsADirectoryError
  | FileExistsError
  | UnicodeDecodeError
  | ZeroDivisionError
  | AttributeError
  | ValueError string
  | LibraryError string

subsection \<open>The file system\<close>

text \<open>
  What a name in a directory can stand for: a directory, a regular file whose bytes decode
  as UTF-8 (kept as the decoded text) or a regular file whose bytes do not.
\<close>

datatype node = Directory | TextFile str | UndecodableFile

text \<open>
  A record of the \<open>logging\<close> module: the level and the message. Where the message
  interpolates an exception, the record keeps the exception itself.
\<close>

datatype log_record = Info string | Error string error

text \<open>
  The file system is a POSIX tree. A location is the list of names that leads to it from
  the root, and \<open>fs\<close> gives what is at a location; the root and the working directory
  \<open>cwd\<close> are directories. There are no symbolic links and no permissions.
\<close>

type_synonym location = "string list"

record world =
  fs :: "location \<rightharpoonup> node"
  cwd :: location
  log :: "log_record list"

definition emit :: "log_record \<Rightarrow> world \<Rightarrow> world" where
  "emit r w = w\<lparr>log := log w @ [r]\<rparr>"

text \<open>The components of a path: \<open>s.split('/')\<close>.\<close>

fun split_path :: "path \<Rightarrow> string list" where
  "split_path [] = [[]]"
| "split_path (c # cs) =
     (if c = CHR ''/'' then [] # split_path cs
      else (case split_path cs of
              [] \<Rightarrow> [[c]]
            | x # xs \<Rightarrow> (c # x) # xs))"

text \<open>
  Path resolution by the kernel, one component at a time from a directory: every
  component, an empty one after a slash included, needs a directory to start from
  (\<open>ENOTDIR\<close> otherwise); \<open>.\<close> stays, \<open>..\<close> goes to the parent, which for the root is
  the root; a name that is not there is \<open>ENOENT\<close>.
\<close>

fun walk :: "(location \<rightharpoonup> node) \<Rightarrow> location \<Rightarrow> node \<Rightarrow> string list \<Rightarrow> error + location \<times> node" where
  "walk f pos kind [] = Inr (pos, kind)"
| "walk f pos kind (c # cs) =
     (if kind \<noteq> Directory then Inl NotADirectoryError
      else if c = [] \<or> c = ''.'' then walk f pos kind cs
      else if c = ''..'' then walk f (butlast pos) Directory cs
      else case f (pos @ [c]) of
             None \<Rightarrow> Inl FileNotFoundError
           | Some n \<Rightarrow> walk f (pos @ [c]) n cs)"

text \<open>Where resolution starts: the root for an absolute path, the working directory otherwise.\<close>

definition start :: "world \<Rightarrow> path \<Rightarrow> location" where
  "start w s = (if take 1 s = ''/'' then [] else cwd w)"

text \<open>\<open>os.stat\<close>: where the path leads and what is there. The empty path leads nowhere.\<close>

definition resolve :: "world \<Rightarrow> path \<Rightarrow> error + location \<times> node" where
  "resolve w s =
     (if s = [] then Inl FileNotFoundError
      else walk (fs w) (start w s) Directory (split_path s))"

text \<open>\<open>os.path.exists\<close>, and \<open>Path.exists\<close> on the string of a path object.\<close>

definition path_exists :: "world \<Rightarrow> path \<Rightarrow> bool" where
  "path_exists w s \<longleftrightarrow> \<not> isl (resolve w s)"

text \<open>
  \<open>open(path, 'r', encoding='utf-8')\<close> followed by reading the whole file: the decoded
  text, or the exception.
\<close>

definition read_text :: "world \<Rightarrow> path \<Rightarrow> error + str" where
  "read_text w p =
     (case resolve w p of
        Inl e \<Rightarrow> Inl e
      | Inr (loc, Directory) \<Rightarrow> Inl IsADirectoryError
      | Inr (loc, UndecodableFile) \<Rightarrow> Inl UnicodeDecodeError
      | Inr (loc, TextFile t) \<Rightarrow> Inr t)"

text \<open>
  \<open>str(pathlib.Path(s))\<close> on POSIX: slashes are collapsed, \<open>.\<close> components and a
  trailing slash are dropped, \<open>..\<close> is kept; exactly two leading slashes stay two; a
  path with nothing left is \<open>.\<close>.
\<close>

definition path_root :: "path \<Rightarrow> string" where
  "path_root s =
     (if take 2 s = ''//'' \<and> take 3 s \<noteq> ''///'' then ''//''
      else if take 1 s = ''/'' then ''/''
      else [])"

definition path_parts :: "path \<Rightarrow> string list" where
  "path_parts s = filter (\<lambda>c. c \<noteq> [] \<and> c \<noteq> ''.'') (split_path s)"

fun join_parts :: "string list \<Rightarrow> string" where
  "join_parts [] = []"
| "join_parts [c] = c"
| "join_parts (c # d # ds) = c @ ''/'' @ join_parts (d # ds)"

definition Path :: "path \<Rightarrow> path" where
  "Path s =
     (if path_root s = [] \<and> path_parts s = [] then ''.''
      else path_root s @ join_parts (path_parts s))"


section \<open>Line mode: \<open>examples/python/data_processor.py\<close>\<close>

subsection \<open>The string operations of Python the script uses\<close>

text \<open>
  \<open>str.isspace\<close> for one code point: the white space of CPython's Unicode database.
\<close>

definition isspace :: "codepoint \<Rightarrow> bool" where
  "isspace c \<longleftrightarrow>
     (9 \<le> c \<and> c \<le> 13) \<or> (28 \<le> c \<and> c \<le> 32) \<or> c = 133 \<or> c = 160 \<or> c = 5760 \<or>
     (8192 \<le> c \<and> c \<le> 8202) \<or> c = 8232 \<or> c = 8233 \<or> c = 8239 \<or> c = 8287 \<or> c = 12288"

definition lstrip :: "str \<Rightarrow> str" where
  "lstrip s = dropWhile isspace s"

definition rstrip :: "str \<Rightarrow> str" where
  "rstrip s = rev (dropWhile isspace (rev s))"

definition strip :: "str \<Rightarrow> str" where
  "strip s = rstrip (lstrip s)"

text \<open>
  A text file opened with the default \<open>newline=None\<close> translates \<open>\r\n\<close> and a lone
  \<open>\r\<close> to \<open>\n\<close> (code point 10) before the program sees them.
\<close>

fun universal_newlines :: "str \<Rightarrow> str" where
  "universal_newlines [] = []"
| "universal_newlines [c] = (if c = 13 then [10] else [c])"
| "universal_newlines (c # d # ds) =
     (if c = 13 \<and> d = 10 then 10 # universal_newlines ds
      else if c = 13 then 10 # universal_newlines (d # ds)
      else c # universal_newlines (d # ds))"

text \<open>
  Iterating over the file object yields its lines: each ends with its \<open>\n\<close>, except a
  last line that the file does not terminate.
\<close>

fun file_lines :: "str \<Rightarrow> str list" where
  "file_lines [] = []"
| "file_lines (c # cs) =
     (if c = 10 then [c] # file_lines cs
      else (case file_lines cs of
              [] \<Rightarrow> [[c]]
            | l # ls \<Rightarrow> (c # l) # ls))"

subsection \<open>The processor\<close>

record line_processor =
  lp_input_file :: path


text \<open>
  \<open>DataProcessor.read_data\<close>: the stripped lines that are not empty once stripped. An
  exception is logged and raised again.
\<close>

definition read_data :: "line_processor \<Rightarrow> world \<Rightarrow> (error + str list) \<times> world" where
  "read_data p w =
     (case read_text w (lp_input_file p) of
        Inl e \<Rightarrow> (Inl e, emit (Error ''Error reading file: '' e) w)
      | Inr t \<Rightarrow>
          (Inr (map strip (filter (\<lambda>line. strip line \<noteq> []) (file_lines (universal_newlines t)))),
           w))"

text \<open>
  The values of the statistics dictionary: an \<open>int\<close>, or the \<open>float\<close> that \<open>/\<close>
  returns. The model keeps the exact quotient of the two integers; Python returns the
  double nearest to it.
\<close>

datatype pyval = PyInt int | PyFloat rat

definition truediv :: "int \<Rightarrow> int \<Rightarrow> error + pyval" where
  "truediv a b = (if b = 0 then Inl ZeroDivisionError else Inr (PyFloat (of_int a / of_int b)))"

record line_stats =
  total_lines :: int
  empty_lines :: int
  avg_length :: pyval

definition len :: "'a list \<Rightarrow> int" where
  "len xs = int (length xs)"

text \<open>\<open>DataProcessor.analyze_data\<close>.\<close>

definition analyze_data :: "str list \<Rightarrow> error + line_stats" where
  "analyze_data data =
     (case (if data \<noteq> [] then truediv (sum_list (map len data)) (len data)
            else Inr (PyInt 0)) of
        Inl e \<Rightarrow> Inl e
      | Inr avg \<Rightarrow>
          Inr \<lparr>total_lines = len data,
               empty_lines = sum_list (map (\<lambda>line. 1) (filter (\<lambda>line. line = []) data)),
               avg_length = avg\<rparr>)"

text \<open>\<open>DataProcessor.process\<close>.\<close>

definition process :: "line_processor \<Rightarrow> world \<Rightarrow> (error + line_stats) \<times> world" where
  "process p w =
     (let w1 = emit (Info (''Processing file: '' @ lp_input_file p)) w in
      case read_data p w1 of
        (Inl e, w2) \<Rightarrow> (Inl e, w2)
      | (Inr data, w2) \<Rightarrow> (analyze_data data, w2))"


section \<open>Tabular mode: \<open>examples/python/data_processor 2.py\<close>\<close>

subsection \<open>The data frame of pandas\<close>

text \<open>
  The script keeps its Dataset in a pandas \<open>DataFrame\<close>: an index of row labels and a
  list of named columns, each with a dtype and one cell per row. A missing cell is
  \<open>NaN\<close>. Floating-point cells are idealised as real numbers: the model computes
  exactly where pandas rounds to a double, and it has no infinities.
\<close>

datatype dtype = Int64 | Float64 | Bool | Object

datatype cell = IntCell int | FloatCell real | BoolCell bool | StrCell str | NaN

record column =
  cname :: str
  ctype :: dtype
  cvalues :: "cell list"

record dataframe =
  index :: "cell list"
  columns :: "column list"

text \<open>
  The invariants of a frame that \<open>read_csv\<close> returns with its default arguments:
  there is at least one column (a file without columns is rejected), column names are
  distinct (the parser renames duplicates), every column has one cell per row, and the
  cells of a column fit its dtype. A column of dtype \<open>object\<close> may mix values, but an
  empty field is read as \<open>NaN\<close>, so no string cell is empty.
\<close>

fun cell_fits :: "dtype \<Rightarrow> cell \<Rightarrow> bool" where
  "cell_fits Int64 (IntCell i) = True"
| "cell_fits Float64 (FloatCell x) = True"
| "cell_fits Float64 NaN = True"
| "cell_fits Bool (BoolCell b) = True"
| "cell_fits Object (StrCell s) = (s \<noteq> [])"
| "cell_fits Object v = True"
| "cell_fits t v = False"

definition wf_dataframe :: "dataframe \<Rightarrow> bool" where
  "wf_dataframe df \<longleftrightarrow>
     columns df \<noteq> [] \<and>
     distinct (map cname (columns df)) \<and>
     list_all (\<lambda>c. length (cvalues c) = length (index df) \<and>
                    list_all (cell_fits (ctype c)) (cvalues c)) (columns df)"

text \<open>
  A Python \<open>dict\<close> built from key-value pairs in order: a later pair with a key already
  present replaces the value and keeps the key's place.
\<close>

definition to_dict :: "('k \<times> 'v) list \<Rightarrow> ('k \<times> 'v) list" where
  "to_dict ps = foldl (\<lambda>d (k, v). AList.update k v d) [] ps"

definition isnull :: "cell \<Rightarrow> bool" where
  "isnull v \<longleftrightarrow> v = NaN"

text \<open>\<open>df.isnull().sum()\<close>: for each column, in order, the number of its null cells.\<close>

definition isnull_sum :: "dataframe \<Rightarrow> (str \<times> int) list" where
  "isnull_sum df = map (\<lambda>c. (cname c, len (filter isnull (cvalues c)))) (columns df)"

subsection \<open>\<open>DataFrame.describe\<close>\<close>

text \<open>
  The numbers of a column, nulls skipped, as every reduction of pandas does by default.
\<close>

fun number_of :: "cell \<Rightarrow> real option" where
  "number_of (IntCell i) = Some (of_int i)"
| "number_of (FloatCell x) = Some x"
| "number_of v = None"

definition numbers :: "cell list \<Rightarrow> real list" where
  "numbers vs = List.map_filter number_of vs"

definition float_cell :: "real option \<Rightarrow> cell" where
  "float_cell r = (case r of None \<Rightarrow> NaN | Some x \<Rightarrow> FloatCell x)"

definition mean :: "real list \<Rightarrow> real option" where
  "mean xs = (if xs = [] then None else Some (sum_list xs / real (length xs)))"

text \<open>The sample standard deviation (\<open>ddof=1\<close>): undefined for fewer than two values.\<close>

definition std :: "real list \<Rightarrow> real option" where
  "std xs =
     (if length xs \<le> 1 then None
      else let m = sum_list xs / real (length xs)
           in Some (sqrt (sum_list (map (\<lambda>x. (x - m)\<^sup>2) xs) / real (length xs - 1))))"

definition minimum :: "real list \<Rightarrow> real option" where
  "minimum xs = (case xs of [] \<Rightarrow> None | x # r \<Rightarrow> Some (fold min r x))"

definition maximum :: "real list \<Rightarrow> real option" where
  "maximum xs = (case xs of [] \<Rightarrow> None | x # r \<Rightarrow> Some (fold max r x))"

text \<open>
  \<open>Series.quantile(q)\<close> with the default \<open>interpolation='linear'\<close>: the value at the
  virtual position \<open>q * (n - 1)\<close> of the sorted values, interpolated between its two
  neighbours.
\<close>

definition quantile :: "real \<Rightarrow> real list \<Rightarrow> real option" where
  "quantile q xs =
     (if xs = [] then None
      else let s = sort xs;
               h = q * real (length xs - 1);
               lo = nat \<lfloor>h\<rfloor>;
               hi = min (lo + 1) (length xs - 1)
           in Some (s ! lo + (h - real lo) * (s ! hi - s ! lo)))"

definition describe_numeric_1d :: "cell list \<Rightarrow> (string \<times> cell) list" where
  "describe_numeric_1d vs =
     (let xs = numbers vs in
      [(''count'', FloatCell (real (length xs))),
       (''mean'', float_cell (mean xs)),
       (''std'', float_cell (std xs)),
       (''min'', float_cell (minimum xs)),
       (''25%'', float_cell (quantile (1 / 4) xs)),
       (''50%'', float_cell (quantile (1 / 2) xs)),
       (''75%'', float_cell (quantile (3 / 4) xs)),
       (''max'', float_cell (maximum xs))])"

text \<open>
  The summary of a column that is not numeric. Which of several equally frequent values
  \<open>value_counts\<close> lists first is left to pandas: \<open>top_of\<close> is a parameter.
\<close>

definition describe_categorical_1d :: "(cell list \<Rightarrow> cell) \<Rightarrow> cell list \<Rightarrow> (string \<times> cell) list" where
  "describe_categorical_1d top_of vs =
     (let present = filter (\<lambda>v. \<not> isnull v) vs;
          count_unique = length (remdups present)
      in [(''count'', IntCell (len present)),
          (''unique'', IntCell (int count_unique)),
          (''top'', if count_unique > 0 then top_of present else NaN),
          (''freq'', if count_unique > 0
                     then IntCell (int (fold max (map (count_list present) present) 0))
                     else NaN)])"

definition is_numeric_dtype :: "dtype \<Rightarrow> bool" where
  "is_numeric_dtype t \<longleftrightarrow> t = Int64 \<or> t = Float64"

text \<open>\<open>df.select_dtypes(include=[np.number])\<close>: the numeric columns, in order.\<close>

definition select_dtypes_number :: "dataframe \<Rightarrow> column list" where
  "select_dtypes_number df = filter (\<lambda>c. is_numeric_dtype (ctype c)) (columns df)"

text \<open>
  With no \<open>include\<close> and no \<open>exclude\<close>, \<open>describe\<close> keeps the numeric columns when
  there are some, and every column otherwise.
\<close>

definition select_data :: "dataframe \<Rightarrow> column list" where
  "select_data df =
     (let selected = select_dtypes_number df
      in if selected = [] then columns df else selected)"

definition describe_1d :: "(cell list \<Rightarrow> cell) \<Rightarrow> column \<Rightarrow> (string \<times> cell) list" where
  "describe_1d top_of c =
     (if ctype c = Bool then describe_categorical_1d top_of (cvalues c)
      else if is_numeric_dtype (ctype c) then describe_numeric_1d (cvalues c)
      else describe_categorical_1d top_of (cvalues c))"

definition describe :: "(cell list \<Rightarrow> cell) \<Rightarrow> dataframe \<Rightarrow> error + (str \<times> (string \<times> cell) list) list" where
  "describe top_of df =
     (if columns df = [] then Inl (ValueError ''Cannot describe a DataFrame without columns'')
      else Inr (map (\<lambda>c. (cname c, describe_1d top_of c)) (select_data df)))"

subsection \<open>The processor\<close>

record csv_stats =
  row_count :: int
  column_count :: int
  missing_values :: "(str \<times> int) list"
  numeric_stats :: "(str \<times> (string \<times> cell) list) list"

text \<open>
  What the script takes from pandas without any code of its own: the CSV parser behind
  \<open>read_csv\<close>, the serialisers behind \<open>to_csv(index=False)\<close> and
  \<open>DataFrame(stats).to_json\<close>, and the order of ties in \<open>value_counts\<close>. They are
  parameters of the model.
\<close>

record pandas =
  parse_csv :: "str \<Rightarrow> error + dataframe"
  to_csv :: "dataframe \<Rightarrow> str"
  to_json :: "csv_stats \<Rightarrow> error + str"
  top_of :: "cell list \<Rightarrow> cell"

record csv_processor =
  input_file :: path
  output_dir :: path
  data :: "dataframe option"

text \<open>\<open>DataProcessor.__init__\<close>.\<close>

definition csv_init :: "path \<Rightarrow> path \<Rightarrow> csv_processor" where
  "csv_init inp out = \<lparr>input_file = inp, output_dir = out, data = None\<rparr>"


definition read_csv :: "pandas \<Rightarrow> world \<Rightarrow> path \<Rightarrow> error + dataframe" where
  "read_csv L w p = (case read_text w p of Inl e \<Rightarrow> Inl e | Inr t \<Rightarrow> parse_csv L t)"

text \<open>\<open>DataProcessor.load_data\<close>.\<close>

definition load_data :: "pandas \<Rightarrow> csv_processor \<Rightarrow> world \<Rightarrow> (error + unit) \<times> csv_processor \<times> world" where
  "load_data L p w =
     (case read_csv L w (input_file p) of
        Inl e \<Rightarrow> (Inl e, p, emit (Error ''Error loading data: '' e) w)
      | Inr df \<Rightarrow>
          (Inr (), p\<lparr>data := Some df\<rparr>,
           emit (Info (''Successfully loaded data from '' @ input_file p)) w))"

text \<open>\<open>DataProcessor.process_data\<close>.\<close>

definition process_data :: "pandas \<Rightarrow> csv_processor \<Rightarrow> world \<Rightarrow> (error + csv_stats) \<times> csv_processor \<times> world" where
  "process_data L p w =
     (case data p of
        None \<Rightarrow> (Inl (ValueError ''No data loaded. Call load_data() first.''), p, w)
      | Some df \<Rightarrow>
          (case describe (top_of L) df of
             Inl e \<Rightarrow> (Inl e, p, w)
           | Inr d \<Rightarrow>
               (Inr \<lparr>row_count = len (index df),
                     column_count = len (columns df),
                     missing_values = to_dict (isnull_sum df),
                     numeric_stats = to_dict d\<rparr>,
                p, emit (Info ''Data processing completed'') w)))"

text \<open>\<open>os.path.join\<close> of a directory and a relative file name.\<close>

definition path_join :: "path \<Rightarrow> path \<Rightarrow> path" where
  "path_join d f = (if d = [] \<or> last d = CHR ''/'' then d @ f else d @ ''/'' @ f)"

text \<open>
  \<open>os.makedirs(d, exist_ok=True)\<close>: walking the path, every name that is missing
  becomes a directory. A regular file in the way is an error, \<open>FileExistsError\<close> when it is
  what the whole path names and \<open>NotADirectoryError\<close> when the path goes on below it; the
  directories made before the error stay.
\<close>

fun mkdirs :: "(location \<rightharpoonup> node) \<Rightarrow> location \<Rightarrow> string list \<Rightarrow> error option \<times> (location \<rightharpoonup> node)" where
  "mkdirs f pos [] = (None, f)"
| "mkdirs f pos (c # cs) =
     (if c = [] \<or> c = ''.'' then mkdirs f pos cs
      else if c = ''..'' then mkdirs f (butlast pos) cs
      else case f (pos @ [c]) of
             None \<Rightarrow> mkdirs (f(pos @ [c] \<mapsto> Directory)) (pos @ [c]) cs
           | Some Directory \<Rightarrow> mkdirs f (pos @ [c]) cs
           | Some file \<Rightarrow>
               (Some (if list_all (\<lambda>x. x = []) cs then FileExistsError
                      else NotADirectoryError), f))"

definition makedirs :: "path \<Rightarrow> world \<Rightarrow> error option \<times> world" where
  "makedirs d w =
     (if d = [] then (Some FileNotFoundError, w)
      else case mkdirs (fs w) (start w d) (split_path d) of
             (e, f) \<Rightarrow> (e, w\<lparr>fs := f\<rparr>))"

text \<open>
  \<open>open(f, 'w')\<close> and writing the text. The directory of the file must be there; a
  trailing slash, \<open>.\<close>, \<open>..\<close> or a directory in the place of the file is
  \<open>IsADirectoryError\<close>; otherwise the file is created or replaced.
\<close>

definition strip_slashes :: "string list \<Rightarrow> string list" where
  "strip_slashes cs = rev (dropWhile (\<lambda>c. c = []) (rev cs))"

definition write_text :: "path \<Rightarrow> str \<Rightarrow> world \<Rightarrow> error + world" where
  "write_text f t w =
     (if f = [] then Inl FileNotFoundError
      else let core = strip_slashes (split_path f) in
        if core = [] then Inl IsADirectoryError
        else case walk (fs w) (start w f) Directory (butlast core) of
               Inl e \<Rightarrow> Inl e
             | Inr (pos, kind) \<Rightarrow>
                 if kind \<noteq> Directory then Inl NotADirectoryError
                 else if length core < length (split_path f) \<or> last core = ''.'' \<or> last core = ''..''
                   then Inl IsADirectoryError
                 else if fs w (pos @ [last core]) = Some Directory then Inl IsADirectoryError
                 else Inr (w\<lparr>fs := (fs w)(pos @ [last core] \<mapsto> TextFile t)\<rparr>))"

text \<open>
  \<open>DataProcessor.save_results\<close>. The script calls it only after \<open>load_data\<close> has
  succeeded; with no data, \<open>self.data.to_csv\<close> is an attribute of \<open>None\<close> and raises.
\<close>

definition save_results :: "pandas \<Rightarrow> csv_stats \<Rightarrow> csv_processor \<Rightarrow> world \<Rightarrow> (error + unit) \<times> csv_processor \<times> world" where
  "save_results L stats p w =
     (case makedirs (output_dir p) w of
        (Some e, w1) \<Rightarrow> (Inl e, p, w1)
      | (None, w1) \<Rightarrow>
          (let stats_file = path_join (output_dir p) ''statistics.json'' in
           case to_json L stats of
             Inl e \<Rightarrow> (Inl e, p, w1)
           | Inr json \<Rightarrow>
              (case write_text stats_file json w1 of
                 Inl e \<Rightarrow> (Inl e, p, w1)
               | Inr w2 \<Rightarrow>
                  (let w3 = emit (Info (''Statistics saved to '' @ stats_file)) w2;
                       output_file = path_join (output_dir p) ''processed_data.csv''
                   in case data p of
                        None \<Rightarrow> (Inl AttributeError, p, w3)
                      | Some df \<Rightarrow>
                          (case write_text output_file (to_csv L df) w3 of
                             Inl e \<Rightarrow> (Inl e, p, w3)
                           | Inr w4 \<Rightarrow>
                               (Inr (), p,
                                emit (Info (''Processed data saved to '' @ output_file)) w4))))))"

text \<open>
  \<open>main\<close> of the CSV script: the exit status and the world afterwards. Any exception is
  logged and ends in \<open>sys.exit(1)\<close>.
\<close>

definition csv_fail :: "error \<Rightarrow> world \<Rightarrow> int \<times> world" where
  "csv_fail e w = (1, emit (Error ''Error in data processing: '' e) w)"

definition csv_main :: "pandas \<Rightarrow> path \<Rightarrow> path \<Rightarrow> world \<Rightarrow> int \<times> world" where
  "csv_main L inp out w =
     (let processor = csv_init inp out in
      case load_data L processor w of
        (Inl e, p1, w1) \<Rightarrow> csv_fail e w1
      | (Inr u, p1, w1) \<Rightarrow>
          (case process_data L p1 w1 of
             (Inl e, p2, w2) \<Rightarrow> csv_fail e w2
           | (Inr stats, p2, w2) \<Rightarrow>
               (case save_results L stats p2 w2 of
                  (Inl e, p3, w3) \<Rightarrow> csv_fail e w3
                | (Inr u', p3, w3) \<Rightarrow>
                    (0, emit (Info ''Data processing completed successfully'') w3))))"

subsection \<open>Example inputs\<close>

definition hello_text :: str where
  "hello_text = text_of ''hello'' @ [10, 10] @ text_of ''world  '' @ [10]"

definition hello_world :: world where
  "hello_world =
     \<lparr>fs = [[''work''] \<mapsto> Directory, [''work'', ''in.txt''] \<mapsto> TextFile hello_text],
      cwd = [''work''], log = []\<rparr>"

text \<open>Lines with surrounding blanks, a line of blanks only, an empty line, no final newline.\<close>

definition padded_text :: str where
  "padded_text = text_of ''  a '' @ [10, 32, 9, 10, 10] @ text_of ''b''"

definition padded_world :: world where
  "padded_world =
     \<lparr>fs = [[''work''] \<mapsto> Directory, [''work'', ''in.txt''] \<mapsto> TextFile padded_text],
      cwd = [''work''], log = []\<rparr>"

text \<open>A frame of three rows: an integer column, a float column with a gap, a string column.\<close>

definition sales :: dataframe where
  "sales =
     \<lparr>index = [IntCell 0, IntCell 1, IntCell 2],
      columns =
        [\<lparr>cname = text_of ''qty'', ctype = Int64, cvalues = [IntCell 1, IntCell 2, IntCell 3]\<rparr>,
         \<lparr>cname = text_of ''price'', ctype = Float64, cvalues = [FloatCell 2, NaN, FloatCell 4]\<rparr>,
         \<lparr>cname = text_of ''city'', ctype = Object,
          cvalues = [StrCell (text_of ''Oslo''), NaN, StrCell (text_of ''Rome'')]\<rparr>]\<rparr>"

text \<open>A frame with no numeric column.\<close>

definition cities :: dataframe where
  "cities =
     \<lparr>index = [IntCell 0],
      columns = [\<lparr>cname = text_of ''city'', ctype = Object,
                 cvalues = [StrCell (text_of ''Oslo'')]\<rparr>]\<rparr>"

text \<open>
  An instance of the pandas parameters for the examples: a parser and a serialiser that
  know the one file of the frame above, a JSON serialiser that writes a fixed text, and
  the first value winning a tie.
\<close>

definition sales_csv :: str where
  "sales_csv =
     text_of ''qty,price,city'' @ [10] @ text_of ''1,2.0,Oslo'' @ [10] @
     text_of ''2,,'' @ [10] @ text_of ''3,4.0,Rome'' @ [10]"

definition toy_pandas :: pandas where
  "toy_pandas =
     \<lparr>parse_csv = (\<lambda>t. if t = sales_csv then Inr sales else Inl (LibraryError ''ParserError'')),
      to_csv = (\<lambda>df. if df = sales then sales_csv else []),
      to_json = (\<lambda>s. Inr (text_of ''{}'')),
      top_of = hd\<rparr>"

definition empty_world :: world where
  "empty_world = \<lparr>fs = Map.empty, cwd = [], log = []\<rparr>"

definition sales_world :: world where
  "sales_world =
     \<lparr>fs = [[''work''] \<mapsto> Directory, [''work'', ''sales.csv''] \<mapsto> TextFile sales_csv],
      cwd = [''work''], log = []\<rparr>"

text \<open>The world after the CSV script has run on \<open>sales.csv\<close> with output directory \<open>out\<close>.\<close>

definition sales_done :: world where
  "sales_done =
     \<lparr>fs = [[''work''] \<mapsto> Directory, [''work'', ''sales.csv''] \<mapsto> TextFile sales_csv,
            [''work'', ''out''] \<mapsto> Directory,
            [''work'', ''out'', ''statistics.json''] \<mapsto> TextFile (text_of ''{}''),
            [''work'', ''out'', ''processed_data.csv''] \<mapsto> TextFile sales_csv],
      cwd = [''work''],
      log = [Info ''Successfully loaded data from sales.csv'',
             Info ''Data processing completed'',
             Info ''Statistics saved to out/statistics.json'',
             Info ''Processed data saved to out/processed_data.csv'',
             Info ''Data processing completed successfully'']\<rparr>"

definition loaded :: "dataframe \<Rightarrow> csv_processor" where
  "loaded df = \<lparr>input_file = ''sales.csv'', output_dir = ''out'', data = Some df\<rparr>"

section \<open>Line mode: what the Loader and the Analyzer guarantee\<close>

subsection \<open>Stripping\<close>

lemma strip_idem: "strip (strip s) = strip s"
  by (metis dropWhile_eq_self_iff dropWhile_idem last_appendR last_rev
    lstrip_def rev.simps(1) rev_rev_ident rstrip_def strip_def
    takeWhile_dropWhile_id)

lemma all_dropWhile: "(\<forall>x\<in>set (dropWhile P s). P x) \<longleftrightarrow> (\<forall>x\<in>set s. P x)"
proof
  assume a: "\<forall>x\<in>set (dropWhile P s). P x"
  have "set s = set (takeWhile P s) \<union> set (dropWhile P s)"
    by (metis set_append takeWhile_dropWhile_id)
  with a show "\<forall>x\<in>set s. P x"
    by (auto dest: set_takeWhileD)
next
  assume "\<forall>x\<in>set s. P x"
  then show "\<forall>x\<in>set (dropWhile P s). P x"
    by (auto dest: set_dropWhileD)
qed

lemma strip_empty_iff: "strip s = [] \<longleftrightarrow> (\<forall>c\<in>set s. isspace c)"
  by (simp add: strip_def lstrip_def rstrip_def dropWhile_eq_Nil_conv all_dropWhile)

subsection \<open>The statistics of a list of lines\<close>

lemma analyze_data_total:
  "analyze_data ds =
     Inr \<lparr>total_lines = len ds,
          empty_lines = int (length (filter (\<lambda>line. line = []) ds)),
          avg_length = (if ds = [] then PyInt 0
                        else PyFloat (of_int (sum_list (map len ds)) / of_int (len ds)))\<rparr>"
  by (simp add: analyze_data_def truediv_def len_def sum_list_triv)

lemma sum_len: "sum_list (map len ds) = int (\<Sum>line\<leftarrow>ds. length line)"
  by (induction ds) (simp_all add: len_def)

lemma resolve_emit [simp]: "resolve (emit r w) s = resolve w s"
  by (simp add: resolve_def start_def emit_def)

lemma read_text_emit [simp]: "read_text (emit r w) s = read_text w s"
  by (simp add: read_text_def)

lemma path_exists_emit [simp]: "path_exists (emit r w) s = path_exists w s"
  by (simp add: path_exists_def)

lemmas path_defs = read_text_def resolve_def start_def path_exists_def Path_def path_root_def
  path_parts_def

lemma hello_text_codepoints:
  "hello_text = [104, 101, 108, 108, 111, 10, 10, 119, 111, 114, 108, 100, 32, 32, 10]"
  by (simp add: hello_text_def text_of_def)

lemma padded_text_codepoints:
  "padded_text = [32, 32, 97, 32, 10, 32, 9, 10, 10, 98]"
  by (simp add: padded_text_def text_of_def)

text \<open>
  Claim C1. The specification asks that \<open>empty_lines\<close> be the number of lines that were
  empty before trimming and dropping, 1 for the file \<open>"hello\n\nworld  \n"\<close>. The script
  counts the empty strings of the list that \<open>read_data\<close> returns, and \<open>read_data\<close> has
  dropped them already. On that file the lines read are \<open>"hello\n"\<close>, \<open>"\n"\<close> and
  \<open>"world  \n"\<close>, one of them empty, the Dataset is \<open>["hello", "world"]\<close>, \<open>total_lines\<close> is 2 and
  \<open>avg_length\<close> is 5.0 as the specification says, but \<open>empty_lines\<close> is 0.
\<close>

theorem process_hello_reports_no_empty_line:
  "file_lines (universal_newlines hello_text) =
     [text_of ''hello'' @ [10], [10], text_of ''world  '' @ [10]] \<and>
   filter (\<lambda>raw. raw = [10]) (file_lines (universal_newlines hello_text)) = [[10]] \<and>
   read_data \<lparr>lp_input_file = ''in.txt''\<rparr> hello_world =
     (Inr [text_of ''hello'', text_of ''world''], hello_world) \<and>
   fst (process \<lparr>lp_input_file = ''in.txt''\<rparr> hello_world) =
     Inr \<lparr>total_lines = 2, empty_lines = 0, avg_length = PyFloat 5\<rparr>"
  by (simp add: process_def read_data_def path_defs hello_world_def emit_def
      hello_text_codepoints strip_def lstrip_def rstrip_def isspace_def analyze_data_def
      truediv_def len_def text_of_def)

text \<open>
  Claim C2. \<open>analyze_data\<close> never raises: for the empty list \<open>avg_length\<close> is the integer
  0, and for a list that is not empty it is the sum of the lengths of the lines divided
  by their number.
\<close>

theorem analyze_data_avg_length:
  "\<exists>s. analyze_data ds = Inr s \<and>
       (ds = [] \<longrightarrow> avg_length s = PyInt 0) \<and>
       (ds \<noteq> [] \<longrightarrow>
          avg_length s = PyFloat (of_nat (\<Sum>line\<leftarrow>ds. length line) / of_nat (length ds)))"
  by (simp add: analyze_data_total sum_len len_def)

text \<open>The two cases of C2 at concrete lists.\<close>

theorem analyze_data_avg_length_witness:
  "analyze_data [text_of ''hello'', text_of ''world''] =
     Inr \<lparr>total_lines = 2, empty_lines = 0, avg_length = PyFloat 5\<rparr> \<and>
   analyze_data [] = Inr \<lparr>total_lines = 0, empty_lines = 0, avg_length = PyInt 0\<rparr>"
  using analyze_data_avg_length [of "[text_of ''hello'', text_of ''world'']"]
    analyze_data_avg_length [of "[]"]
  by (simp add: analyze_data_def truediv_def len_def text_of_def)

text \<open>
  Claim C10. For every path that opens as a text file, \<open>read_data\<close> returns the stripped forms of exactly the
  lines that hold a character that is not white space: lines of white space only are
  dropped like empty ones. Every string it returns is non-empty and is its own stripped
  form. So \<open>analyze_data\<close> on that list, and \<open>process\<close> on the file, report
  \<open>empty_lines = 0\<close>.
\<close>

theorem read_data_lines_trimmed:
  assumes "read_text w (lp_input_file p) = Inr t"
  shows "\<exists>ds. read_data p w = (Inr ds, w) \<and>
           ds = map strip (filter (\<lambda>raw. \<exists>c\<in>set raw. \<not> isspace c)
                                  (file_lines (universal_newlines t))) \<and>
           (\<forall>line\<in>set ds. line \<noteq> [] \<and> strip line = line) \<and>
           (\<exists>s. analyze_data ds = Inr s \<and> empty_lines s = 0) \<and>
           (\<exists>s w'. process p w = (Inr s, w') \<and> empty_lines s = 0)"
proof -
  define ds where
    "ds = map strip (filter (\<lambda>line. strip line \<noteq> []) (file_lines (universal_newlines t)))"
  have rd: "read_data p w' = (Inr ds, w')"
    if "read_text w' (lp_input_file p) = Inr t" for w'
    using that by (simp add: read_data_def ds_def)
  have flt: "ds = map strip (filter (\<lambda>raw. \<exists>c\<in>set raw. \<not> isspace c)
                                   (file_lines (universal_newlines t)))"
    by (simp add: ds_def strip_empty_iff)
  have inv: "\<forall>line\<in>set ds. line \<noteq> [] \<and> strip line = line"
    by (auto simp: ds_def strip_idem)
  then have "filter (\<lambda>line. line = []) ds = []"
    by (simp add: filter_empty_conv)
  then have an: "empty_lines (projr (analyze_data ds)) = 0"
    "analyze_data ds = Inr (projr (analyze_data ds))"
    by (simp_all add: analyze_data_total)
  have "read_text (emit (Info (''Processing file: '' @ lp_input_file p)) w) (lp_input_file p) =
      Inr t"
    using assms by simp
  then have pr: "process p w =
      (analyze_data ds, emit (Info (''Processing file: '' @ lp_input_file p)) w)"
    by (simp add: process_def rd)
  have a: "\<exists>s. analyze_data ds = Inr s \<and> empty_lines s = 0"
    using an by blast
  have b: "\<exists>s w'. process p w = (Inr s, w') \<and> empty_lines s = 0"
    using an pr by metis
  show ?thesis
    using rd [OF assms] flt inv a b by blast
qed

text \<open>C10 on a file with padded lines, a line of blanks, an empty line and no final newline.\<close>

theorem read_data_lines_trimmed_witness:
  "read_text padded_world ''in.txt'' = Inr padded_text \<and>
   read_data \<lparr>lp_input_file = ''in.txt''\<rparr> padded_world =
     (Inr [text_of ''a'', text_of ''b''], padded_world) \<and>
   strip (text_of ''a'') = text_of ''a'' \<and>
   fst (process \<lparr>lp_input_file = ''in.txt''\<rparr> padded_world) =
     Inr \<lparr>total_lines = 2, empty_lines = 0, avg_length = PyFloat 1\<rparr>"
proof -
  have h: "read_text padded_world (lp_input_file \<lparr>lp_input_file = ''in.txt''\<rparr>) = Inr padded_text"
    by (simp add: path_defs padded_world_def)
  show ?thesis
    using h read_data_lines_trimmed [OF h]
    by (simp add: process_def read_data_def padded_text_codepoints strip_def lstrip_def
        rstrip_def isspace_def analyze_data_def truediv_def len_def text_of_def)
qed

section \<open>Tabular mode: what the Analyzer guarantees\<close>

subsection \<open>Dictionaries with distinct keys\<close>

lemma update_fresh: "k \<notin> fst ` set al \<Longrightarrow> AList.update k v al = al @ [(k, v)]"
  by (induction al) auto

lemma foldl_update_distinct:
  "distinct (map fst (d @ ps)) \<Longrightarrow> foldl (\<lambda>d (k, v). AList.update k v d) d ps = d @ ps"
proof (induction ps arbitrary: d)
  case Nil
  then show ?case by simp
next
  case (Cons kv ps)
  obtain k v where kv: "kv = (k, v)" by (cases kv)
  from Cons.prems have fresh: "k \<notin> fst ` set d"
    and dist: "distinct (map fst ((d @ [(k, v)]) @ ps))"
    by (auto simp: kv)
  show ?case
    using Cons.IH [OF dist] by (simp add: kv update_fresh [OF fresh])
qed

lemma to_dict_distinct: "distinct (map fst ps) \<Longrightarrow> to_dict ps = ps"
  using foldl_update_distinct [of "[]" ps] by (simp add: to_dict_def)

lemma map_of_keyed:
  "distinct (map f xs) \<Longrightarrow> x \<in> set xs \<Longrightarrow> map_of (map (\<lambda>x. (f x, g x)) xs) (f x) = Some (g x)"
  by (rule map_of_is_SomeI) (auto simp: comp_def)

lemma sum_list_bounded:
  "(\<forall>x\<in>set xs. f x \<le> (n::int)) \<Longrightarrow> sum_list (map f xs) \<le> int (length xs) * n"
  by (induction xs) (auto simp: algebra_simps)

subsection \<open>Cells\<close>

lemma no_empty_string: "list_all (cell_fits t) vs \<Longrightarrow> StrCell [] \<notin> set vs"
  by (cases t) (auto simp: list_all_iff)

lemma null_count: "length (filter isnull vs) = card {i. i < length vs \<and> vs ! i = NaN}"
  by (simp add: length_filter_conv_card isnull_def)

subsection \<open>Linear interpolation\<close>

text \<open>
  Between two neighbouring positions of the sorted values the quantile moves on the
  straight line through them, and at a whole position it is the value there.
\<close>

lemma quantile_interpolates:
  assumes "k + 1 < length xs"
    and "real k \<le> q * real (length xs - 1)" and "q * real (length xs - 1) < real k + 1"
  shows "quantile q xs =
     Some (sort xs ! k + (q * real (length xs - 1) - real k) * (sort xs ! (k + 1) - sort xs ! k))"
proof -
  have "\<lfloor>q * real (length xs - 1)\<rfloor> = int k"
    using assms(2,3) by (intro floor_unique) simp_all
  then have "nat \<lfloor>q * real (length xs - 1)\<rfloor> = k"
    by simp
  moreover have "xs \<noteq> []" and "min (k + 1) (length xs - 1) = k + 1"
    using assms(1) by auto
  ultimately show ?thesis
    by (simp add: quantile_def Let_def)
qed

lemma quantile_last: "xs \<noteq> [] \<Longrightarrow> quantile 1 xs = Some (sort xs ! (length xs - 1))"
  by (simp add: quantile_def Let_def)

subsection \<open>The report of a loaded frame\<close>

lemma describe_wf:
  "wf_dataframe df \<Longrightarrow>
   describe t df = Inr (map (\<lambda>c. (cname c, describe_1d t c)) (select_data df))"
  by (simp add: describe_def wf_dataframe_def)

lemma process_data_loaded:
  assumes "data p = Some df" "wf_dataframe df"
  shows "process_data L p w =
     (Inr \<lparr>row_count = len (index df), column_count = len (columns df),
           missing_values = isnull_sum df,
           numeric_stats = map (\<lambda>c. (cname c, describe_1d (top_of L) c)) (select_data df)\<rparr>,
      p, emit (Info ''Data processing completed'') w)"
proof -
  have names: "distinct (map cname (columns df))"
    using assms(2) by (simp add: wf_dataframe_def)
  have "distinct (map cname (select_data df))"
    using names by (simp add: select_data_def select_dtypes_number_def Let_def distinct_map_filter)
  then have d: "to_dict (map (\<lambda>c. (cname c, describe_1d (top_of L) c)) (select_data df)) =
      map (\<lambda>c. (cname c, describe_1d (top_of L) c)) (select_data df)"
    by (intro to_dict_distinct) (simp add: comp_def)
  have m: "to_dict (isnull_sum df) = isnull_sum df"
    using names by (intro to_dict_distinct) (simp add: isnull_sum_def comp_def)
  show ?thesis
    using assms by (simp add: process_data_def describe_wf d m)
qed

lemmas eval_defs = describe_1d_def describe_numeric_1d_def
  describe_categorical_1d_def select_data_def select_dtypes_number_def is_numeric_dtype_def
  isnull_sum_def isnull_def numbers_def List.map_filter_def mean_def std_def minimum_def
  maximum_def quantile_def float_cell_def len_def emit_def loaded_def sales_def cities_def
  toy_pandas_def empty_world_def text_of_def

lemma wf_sales: "wf_dataframe sales"
  by (simp add: wf_dataframe_def sales_def text_of_def)

lemma wf_cities: "wf_dataframe cities"
  by (simp add: wf_dataframe_def cities_def text_of_def)

text \<open>
  Claim C3. For a loaded, well-formed frame the report's \<open>row_count\<close> is the number of
  rows, which is the number of cells of every column, and \<open>column_count\<close> is the number
  of distinct columns.
\<close>

theorem process_data_counts:
  assumes "data p = Some df" "wf_dataframe df"
  shows "\<exists>stats. fst (process_data L p w) = Inr stats \<and>
           row_count stats = int (length (index df)) \<and>
           column_count stats = int (card (cname ` set (columns df))) \<and>
           (\<forall>c\<in>set (columns df). int (length (cvalues c)) = row_count stats)"
proof -
  have "distinct (map cname (columns df))"
    using assms(2) by (simp add: wf_dataframe_def)
  then have "card (cname ` set (columns df)) = length (columns df)"
    by (metis distinct_card length_map set_map)
  moreover have "\<forall>c\<in>set (columns df). length (cvalues c) = length (index df)"
    using assms(2) by (simp add: wf_dataframe_def list_all_iff)
  ultimately show ?thesis
    by (simp add: process_data_loaded [OF assms] len_def)
qed

text \<open>C3 on the frame of three rows and three columns.\<close>

theorem process_data_counts_witness:
  "data (loaded sales) = Some sales \<and> wf_dataframe sales \<and>
   row_count (projr (fst (process_data toy_pandas (loaded sales) empty_world))) = 3 \<and>
   column_count (projr (fst (process_data toy_pandas (loaded sales) empty_world))) = 3"
proof -
  have h: "data (loaded sales) = Some sales"
    by (simp add: loaded_def)
  obtain stats where "fst (process_data toy_pandas (loaded sales) empty_world) = Inr stats"
    "row_count stats = int (length (index sales))"
    "column_count stats = int (card (cname ` set (columns sales)))"
    using process_data_counts [OF h wf_sales, of toy_pandas empty_world] by blast
  then show ?thesis
    using h wf_sales by (simp add: sales_def text_of_def)
qed

text \<open>
  Claim C5. For a loaded, well-formed frame \<open>missing_values\<close> has one entry per column,
  in order, and maps each column to the number of its cells that are null or empty: the
  null cells, since a loaded frame has no empty string. The entries sum to at most
  \<open>row_count * column_count\<close>.
\<close>

theorem missing_values_exact:
  assumes "data p = Some df" "wf_dataframe df"
  shows "\<exists>stats. fst (process_data L p w) = Inr stats \<and>
           map fst (missing_values stats) = map cname (columns df) \<and>
           (\<forall>c\<in>set (columns df).
              map_of (missing_values stats) (cname c) =
                Some (int (card {i. i < length (index df) \<and>
                                    (cvalues c ! i = NaN \<or> cvalues c ! i = StrCell [])}))) \<and>
           sum_list (map snd (missing_values stats)) \<le> row_count stats * column_count stats"
proof -
  have names: "distinct (map cname (columns df))"
    and cols: "\<forall>c\<in>set (columns df). length (cvalues c) = length (index df) \<and>
                  list_all (cell_fits (ctype c)) (cvalues c)"
    using assms(2) by (simp_all add: wf_dataframe_def list_all_iff)
  have count: "len (filter isnull (cvalues c)) =
      int (card {i. i < length (index df) \<and> (cvalues c ! i = NaN \<or> cvalues c ! i = StrCell [])})"
    if "c \<in> set (columns df)" for c
  proof -
    have n: "length (cvalues c) = length (index df)" and "StrCell [] \<notin> set (cvalues c)"
      using cols that no_empty_string by blast+
    then have "{i. i < length (index df) \<and> (cvalues c ! i = NaN \<or> cvalues c ! i = StrCell [])} =
        {i. i < length (cvalues c) \<and> cvalues c ! i = NaN}"
      by (metis (no_types, lifting) nth_mem)
    then show ?thesis
      by (simp add: len_def null_count)
  qed
  have look: "map_of (isnull_sum df) (cname c) = Some (len (filter isnull (cvalues c)))"
    if "c \<in> set (columns df)" for c
    unfolding isnull_sum_def using names that by (rule map_of_keyed)
  have "\<forall>c\<in>set (columns df). len (filter isnull (cvalues c)) \<le> int (length (index df))"
    using cols by (metis len_def length_filter_le of_nat_le_iff)
  then have "sum_list (map (\<lambda>c. len (filter isnull (cvalues c))) (columns df)) \<le>
      int (length (columns df)) * int (length (index df))"
    by (rule sum_list_bounded)
  then have bound: "sum_list (map snd (isnull_sum df)) \<le> len (index df) * len (columns df)"
    by (simp add: isnull_sum_def comp_def len_def mult.commute)
  show ?thesis
    using look count bound
    by (simp add: process_data_loaded [OF assms]) (simp add: isnull_sum_def comp_def)
qed

text \<open>C5 on the frame with one gap in \<open>price\<close> and one in \<open>city\<close>.\<close>

theorem missing_values_exact_witness:
  "data (loaded sales) = Some sales \<and> wf_dataframe sales \<and>
   missing_values (projr (fst (process_data toy_pandas (loaded sales) empty_world))) =
     [(text_of ''qty'', 0), (text_of ''price'', 1), (text_of ''city'', 1)]"
proof -
  have h: "data (loaded sales) = Some sales"
    by (simp add: loaded_def)
  have "missing_values (projr (fst (process_data toy_pandas (loaded sales) empty_world))) =
     [(text_of ''qty'', 0), (text_of ''price'', 1), (text_of ''city'', 1)]"
    by (simp add: process_data_loaded [OF h wf_sales] isnull_sum_def len_def)
       (simp add: sales_def isnull_def)
  then show ?thesis
    using h wf_sales missing_values_exact [OF h wf_sales, of toy_pandas empty_world] by simp
qed

text \<open>
  Claim C4, as amended. For a loaded, well-formed frame \<open>process_data\<close> raises nothing.
  When the frame has a numeric column, \<open>numeric_stats\<close> has one entry for each numeric
  column and none for any other; the entry holds count, mean, standard deviation,
  minimum, the 25th, 50th and 75th percentile by linear interpolation, and maximum of the
  column's values that are not null. When the frame has no numeric column, \<open>describe\<close>
  summarises every column instead, and \<open>numeric_stats\<close> has an entry with count, unique,
  top and freq for each of them.
\<close>

theorem numeric_stats_describe:
  assumes "data p = Some df" "wf_dataframe df"
  shows "\<exists>stats. fst (process_data L p w) = Inr stats \<and>
     (select_dtypes_number df \<noteq> [] \<longrightarrow>
        map fst (numeric_stats stats) = map cname (select_dtypes_number df) \<and>
        (\<forall>c\<in>set (select_dtypes_number df).
           map_of (numeric_stats stats) (cname c) =
             Some (let xs = numbers (cvalues c) in
                   [(''count'', FloatCell (real (length xs))),
                    (''mean'', float_cell (mean xs)),
                    (''std'', float_cell (std xs)),
                    (''min'', float_cell (minimum xs)),
                    (''25%'', float_cell (quantile (1 / 4) xs)),
                    (''50%'', float_cell (quantile (1 / 2) xs)),
                    (''75%'', float_cell (quantile (3 / 4) xs)),
                    (''max'', float_cell (maximum xs))]))) \<and>
     (select_dtypes_number df = [] \<longrightarrow>
        map fst (numeric_stats stats) = map cname (columns df) \<and>
        (\<forall>c\<in>set (columns df).
           \<exists>d. map_of (numeric_stats stats) (cname c) = Some d \<and>
               map fst d = [''count'', ''unique'', ''top'', ''freq'']))"
proof -
  let ?f = "describe_1d (top_of L)"
  have names: "distinct (map cname (columns df))"
    using assms(2) by (simp add: wf_dataframe_def)
  have sel: "distinct (map cname (select_data df))"
    using names by (simp add: select_data_def select_dtypes_number_def Let_def distinct_map_filter)
  have look: "map_of (map (\<lambda>c. (cname c, ?f c)) (select_data df)) (cname c) = Some (?f c)"
    if "c \<in> set (select_data df)" for c
    using sel that by (rule map_of_keyed)
  have num: "?f c = describe_numeric_1d (cvalues c)" if "c \<in> set (select_dtypes_number df)" for c
    using that by (auto simp: describe_1d_def select_dtypes_number_def is_numeric_dtype_def)
  have cat: "map fst (?f c) = [''count'', ''unique'', ''top'', ''freq'']"
    if "select_dtypes_number df = []" "c \<in> set (columns df)" for c
  proof -
    have "\<not> is_numeric_dtype (ctype c)"
      using that by (auto simp: select_dtypes_number_def filter_empty_conv)
    then show ?thesis
      by (simp add: describe_1d_def describe_categorical_1d_def Let_def)
  qed
  have a: "select_dtypes_number df \<noteq> [] \<Longrightarrow> select_data df = select_dtypes_number df"
    and b: "select_dtypes_number df = [] \<Longrightarrow> select_data df = columns df"
    by (simp_all add: select_data_def)
  show ?thesis
  proof (cases "select_dtypes_number df = []")
    case True
    then show ?thesis
      using look cat by (simp add: process_data_loaded [OF assms] b comp_def)
  next
    case False
    then show ?thesis
      using look num by (simp add: process_data_loaded [OF assms] a comp_def describe_numeric_1d_def)
  qed
qed

text \<open>The amended C4 on a frame with two numeric columns and on one with none.\<close>

theorem numeric_stats_describe_witness:
  "data (loaded sales) = Some sales \<and> wf_dataframe sales \<and>
   select_dtypes_number sales \<noteq> [] \<and>
   numeric_stats (projr (fst (process_data toy_pandas (loaded sales) empty_world))) =
     [(text_of ''qty'',
       [(''count'', FloatCell 3), (''mean'', FloatCell 2), (''std'', FloatCell 1),
        (''min'', FloatCell 1), (''25%'', FloatCell (3 / 2)), (''50%'', FloatCell 2),
        (''75%'', FloatCell (5 / 2)), (''max'', FloatCell 3)]),
      (text_of ''price'',
       [(''count'', FloatCell 2), (''mean'', FloatCell 3), (''std'', FloatCell (sqrt 2)),
        (''min'', FloatCell 2), (''25%'', FloatCell (5 / 2)), (''50%'', FloatCell 3),
        (''75%'', FloatCell (7 / 2)), (''max'', FloatCell 4)])] \<and>
   data (loaded cities) = Some cities \<and> wf_dataframe cities \<and>
   select_dtypes_number cities = [] \<and>
   map fst (numeric_stats (projr (fst (process_data toy_pandas (loaded cities) empty_world)))) =
     [text_of ''city'']"
proof -
  have h: "data (loaded sales) = Some sales" and h': "data (loaded cities) = Some cities"
    by (simp_all add: loaded_def)
  have s: "select_dtypes_number sales \<noteq> []" and s': "select_dtypes_number cities = []"
    by (simp_all add: select_dtypes_number_def is_numeric_dtype_def sales_def cities_def)
  have v: "numeric_stats (projr (fst (process_data toy_pandas (loaded sales) empty_world))) =
     [(text_of ''qty'',
       [(''count'', FloatCell 3), (''mean'', FloatCell 2), (''std'', FloatCell 1),
        (''min'', FloatCell 1), (''25%'', FloatCell (3 / 2)), (''50%'', FloatCell 2),
        (''75%'', FloatCell (5 / 2)), (''max'', FloatCell 3)]),
      (text_of ''price'',
       [(''count'', FloatCell 2), (''mean'', FloatCell 3), (''std'', FloatCell (sqrt 2)),
        (''min'', FloatCell 2), (''25%'', FloatCell (5 / 2)), (''50%'', FloatCell 3),
        (''75%'', FloatCell (7 / 2)), (''max'', FloatCell 4)])]"
    by (simp add: process_data_def describe_def to_dict_def eval_defs power2_eq_square)
  have v': "map fst (numeric_stats (projr (fst (process_data toy_pandas (loaded cities) empty_world)))) =
     [text_of ''city'']"
    by (simp add: process_data_def describe_def to_dict_def eval_defs)
  show ?thesis
    using h h' s s' v v' wf_sales wf_cities
      numeric_stats_describe [OF h wf_sales, of toy_pandas empty_world]
      numeric_stats_describe [OF h' wf_cities, of toy_pandas empty_world]
    by simp
qed

text \<open>
  C4 as the specification states it fails on a frame whose only column holds strings: the
  column is not numeric, and \<open>numeric_stats\<close> has an entry for it.
\<close>

theorem numeric_stats_cities_counterexample:
  "ctype (hd (columns cities)) = Object \<and>
   fst (process_data toy_pandas (loaded cities) empty_world) =
     Inr \<lparr>row_count = 1, column_count = 1,
          missing_values = [(text_of ''city'', 0)],
          numeric_stats =
            [(text_of ''city'',
              [(''count'', IntCell 1), (''unique'', IntCell 1),
               (''top'', StrCell (text_of ''Oslo'')), (''freq'', IntCell 1)])]\<rparr>"
  by (simp add: process_data_def describe_def to_dict_def eval_defs)

text \<open>
  Claim C8. \<open>process_data\<close> raises its \<open>ValueError\<close> for missing data exactly when no
  frame has been loaded; then neither the processor nor the world changes, and no report
  is returned. With a loaded, well-formed frame it raises nothing.
\<close>

theorem process_data_requires_loaded_data:
  "(fst (process_data L p w) = Inl (ValueError ''No data loaded. Call load_data() first.'')
      \<longleftrightarrow> data p = None) \<and>
   (data p = None \<longrightarrow> snd (process_data L p w) = (p, w)) \<and>
   (\<forall>df. data p = Some df \<and> wf_dataframe df \<longrightarrow> (\<exists>stats. fst (process_data L p w) = Inr stats))"
  by (auto simp: process_data_def describe_def wf_dataframe_def split: option.splits)

text \<open>C8 on a processor fresh from its constructor, and on a loaded one.\<close>

theorem process_data_requires_loaded_data_witness:
  "data (csv_init ''sales.csv'' ''out'') = None \<and>
   process_data toy_pandas (csv_init ''sales.csv'' ''out'') sales_world =
     (Inl (ValueError ''No data loaded. Call load_data() first.''),
      csv_init ''sales.csv'' ''out'', sales_world) \<and>
   data (loaded sales) = Some sales \<and> wf_dataframe sales \<and>
   \<not> isl (fst (process_data toy_pandas (loaded sales) sales_world))"
proof -
  have h: "data (loaded sales) = Some sales"
    by (simp add: loaded_def)
  have "\<not> isl (fst (process_data toy_pandas (loaded sales) sales_world))"
    by (simp add: process_data_loaded [OF h wf_sales])
  then show ?thesis
    using h wf_sales
      process_data_requires_loaded_data [of toy_pandas "csv_init ''sales.csv'' ''out''" sales_world]
      process_data_requires_loaded_data [of toy_pandas "loaded sales" sales_world]
    by (simp add: csv_init_def process_data_def)
qed

subsection \<open>Effects\<close>

text \<open>A file that has been written is what reading the same path gives back.\<close>

lemma walk_append:
  "walk f pos kind (xs @ ys) =
     (case walk f pos kind xs of Inl e \<Rightarrow> Inl e | Inr (pos', kind') \<Rightarrow> walk f pos' kind' ys)"
  by (induction xs arbitrary: pos kind) (auto split: option.splits)

lemma walk_from_file:
  "kind \<noteq> Directory \<Longrightarrow> walk f pos kind cs \<noteq> Inr (pos', Directory)"
  by (cases cs) auto

lemma walk_update:
  assumes "f k \<noteq> Some Directory" "walk f pos kind cs = Inr (pos', Directory)"
  shows "walk (f(k \<mapsto> n)) pos kind cs = Inr (pos', Directory)"
  using assms(2)
proof (induction cs arbitrary: pos kind)
  case Nil
  then show ?case by simp
next
  case (Cons c cs)
  from Cons.prems have dir: "kind = Directory"
    by (auto split: if_splits)
  show ?case
  proof (cases "c = [] \<or> c = ''.'' \<or> c = ''..''")
    case True
    then show ?thesis
      using Cons.prems Cons.IH dir by (auto split: if_splits)
  next
    case False
    with Cons.prems dir obtain m where m: "f (pos @ [c]) = Some m"
      and w: "walk f (pos @ [c]) m cs = Inr (pos', Directory)"
      by (auto split: option.splits)
    have "pos @ [c] \<noteq> k"
    proof
      assume "pos @ [c] = k"
      with m assms(1) have "m \<noteq> Directory" by auto
      then show False using w walk_from_file by blast
    qed
    then show ?thesis
      using False dir m Cons.IH [OF w] by simp
  qed
qed

lemma dropWhile_same_length:
  "\<not> length (dropWhile P xs) < length xs \<Longrightarrow> dropWhile P xs = xs"
proof (cases xs)
  case Nil
  then show ?thesis by simp
next
  case (Cons x r)
  assume a: "\<not> length (dropWhile P xs) < length xs"
  have "length (dropWhile P r) \<le> length r"
    by (rule length_dropWhile_le)
  with a Cons have "\<not> P x"
    by (auto split: if_splits)
  with Cons show ?thesis by simp
qed

lemma strip_slashes_same:
  assumes "\<not> length (strip_slashes cs) < length cs"
  shows "strip_slashes cs = cs"
proof -
  have "dropWhile (\<lambda>c. c = []) (rev cs) = rev cs"
    using assms by (intro dropWhile_same_length) (simp add: strip_slashes_def)
  then show ?thesis
    by (simp add: strip_slashes_def)
qed

lemma write_read:
  assumes "write_text f t w = Inr w'"
  shows "read_text w' f = Inr t"
proof -
  let ?cs = "split_path f"
  from assms have ne: "f \<noteq> []" and core: "strip_slashes ?cs \<noteq> []"
    by (auto simp: write_text_def Let_def split: if_splits)
  from assms ne core obtain pos where
    par: "walk (fs w) (start w f) Directory (butlast (strip_slashes ?cs)) = Inr (pos, Directory)"
    and same: "\<not> length (strip_slashes ?cs) < length ?cs"
    and name: "last (strip_slashes ?cs) \<noteq> ''.''" "last (strip_slashes ?cs) \<noteq> ''..''"
    and free: "fs w (pos @ [last (strip_slashes ?cs)]) \<noteq> Some Directory"
    and w': "w' = w\<lparr>fs := (fs w)(pos @ [last (strip_slashes ?cs)] \<mapsto> TextFile t)\<rparr>"
    by (auto simp: write_text_def Let_def split: if_splits sum.splits)
  have eq: "strip_slashes ?cs = ?cs"
    using same by (rule strip_slashes_same)
  define c where "c = last ?cs"
  have cs: "?cs = butlast ?cs @ [c]"
    using core eq by (simp add: c_def)
  have "dropWhile (\<lambda>c. c = []) (rev ?cs) = rev ?cs"
    using eq by (metis rev_rev_ident strip_slashes_def)
  then have "c \<noteq> []"
    using core eq by (metis c_def dropWhile_eq_self_iff hd_rev rev_is_Nil_conv)
  have up: "walk ((fs w)(pos @ [c] \<mapsto> TextFile t)) (start w f) Directory (butlast ?cs) =
      Inr (pos, Directory)"
    using free par by (intro walk_update) (simp_all add: eq c_def)
  have "walk ((fs w)(pos @ [c] \<mapsto> TextFile t)) (start w f) Directory ?cs =
      Inr (pos @ [c], TextFile t)"
  proof -
    have "c \<noteq> ''.''" "c \<noteq> ''..''"
      using name by (simp_all add: eq c_def)
    then show ?thesis
      by (subst cs) (simp add: walk_append up \<open>c \<noteq> []\<close>)
  qed
  moreover have "start w' f = start w f"
    by (simp add: start_def w')
  ultimately show ?thesis
    using ne by (simp add: read_text_def resolve_def) (simp add: w' eq c_def)
qed

lemma save_results_persists:
  assumes "save_results L stats p w = (Inr u, p', w')" "data p = Some df"
  shows "read_text w' (path_join (output_dir p) ''processed_data.csv'') = Inr (to_csv L df)"
  using assms
  by (auto simp: save_results_def Let_def dest!: write_read
      split: sum.splits option.splits prod.splits)

lemma process_data_state:
  "fst (snd (process_data L p w)) = p \<and>
   fs (snd (snd (process_data L p w))) = fs w \<and>
   cwd (snd (snd (process_data L p w))) = cwd w \<and>
   log (snd (snd (process_data L p w))) =
     (if isl (fst (process_data L p w)) then log w
      else log w @ [Info ''Data processing completed''])"
  by (simp add: process_data_def emit_def split: option.splits sum.splits)

lemma process_data_report:
  "data p' = data p \<Longrightarrow> fst (process_data L p' w') = fst (process_data L p w)"
  by (simp add: process_data_def split: option.splits sum.splits)

lemma csv_main_persists:
  assumes "read_csv L w inp = Inr df" "fst (csv_main L inp out w) = 0"
  shows "read_text (snd (csv_main L inp out w)) (path_join out ''processed_data.csv'') =
           Inr (to_csv L df)"
proof -
  define p1 where "p1 = \<lparr>input_file = inp, output_dir = out, data = Some df\<rparr>"
  define w1 where "w1 = emit (Info (''Successfully loaded data from '' @ inp)) w"
  have ld: "load_data L (csv_init inp out) w = (Inr (), p1, w1)"
    using assms(1) by (simp add: load_data_def csv_init_def p1_def w1_def)
  obtain r w2 where pd: "process_data L p1 w1 = (r, p1, w2)"
    using process_data_state [of L p1 w1] by (metis fst_conv prod.collapse snd_conv)
  show ?thesis
  proof (cases r)
    case (Inl e)
    then show ?thesis
      using assms(2) by (simp add: csv_main_def ld pd csv_fail_def)
  next
    case (Inr stats)
    obtain r' p3 w3 where sr: "save_results L stats p1 w2 = (r', p3, w3)"
      by (metis prod.collapse)
    show ?thesis
    proof (cases r')
      case (Inl e)
      then show ?thesis
        using assms(2) by (simp add: csv_main_def ld pd Inr sr csv_fail_def)
    next
      case r': (Inr u)
      have "read_text w3 (path_join (output_dir p1) ''processed_data.csv'') = Inr (to_csv L df)"
        using sr by (intro save_results_persists [of L stats p1 w2 u p3 w3]) (simp_all add: r' p1_def)
      moreover have "output_dir p1 = out"
        by (simp add: p1_def)
      ultimately show ?thesis
        by (simp add: csv_main_def ld pd Inr sr r')
    qed
  qed
qed

lemma process_after_read:
  "read_data lp (emit (Info (''Processing file: '' @ lp_input_file lp)) w) = (Inr ds, w2) \<Longrightarrow>
   process lp w = (analyze_data ds, w2)"
  by (simp add: process_def)

lemma read_data_world:
  "read_data lp w = (Inr ds, w2) \<Longrightarrow> w2 = w"
  by (auto simp: read_data_def split: sum.splits)

lemma read_sales: "read_csv toy_pandas sales_world ''sales.csv'' = Inr sales"
  by (simp add: read_csv_def path_defs sales_world_def toy_pandas_def)

lemma sales_report:
  "data p = Some sales \<Longrightarrow>
   fst (process_data toy_pandas p w) =
     Inr \<lparr>row_count = 3, column_count = 3,
          missing_values = [(text_of ''qty'', 0), (text_of ''price'', 1), (text_of ''city'', 1)],
          numeric_stats =
            [(text_of ''qty'',
              [(''count'', FloatCell 3), (''mean'', FloatCell 2), (''std'', FloatCell 1),
               (''min'', FloatCell 1), (''25%'', FloatCell (3 / 2)), (''50%'', FloatCell 2),
               (''75%'', FloatCell (5 / 2)), (''max'', FloatCell 3)]),
             (text_of ''price'',
              [(''count'', FloatCell 2), (''mean'', FloatCell 3), (''std'', FloatCell (sqrt 2)),
               (''min'', FloatCell 2), (''25%'', FloatCell (5 / 2)), (''50%'', FloatCell 3),
               (''75%'', FloatCell (7 / 2)), (''max'', FloatCell 4)])]\<rparr>"
  by (simp add: process_data_def describe_def to_dict_def describe_1d_def describe_numeric_1d_def
      describe_categorical_1d_def select_data_def select_dtypes_number_def is_numeric_dtype_def
      isnull_sum_def isnull_def numbers_def List.map_filter_def mean_def std_def minimum_def
      maximum_def quantile_def float_cell_def len_def sales_def toy_pandas_def text_of_def
      power2_eq_square)

lemma main_sales: "csv_main toy_pandas ''sales.csv'' ''out'' sales_world = (0, sales_done)"
proof -
  define p1 where "p1 = \<lparr>input_file = ''sales.csv'', output_dir = ''out'', data = Some sales\<rparr>"
  define w1 where "w1 = emit (Info ''Successfully loaded data from sales.csv'') sales_world"
  define w2 where "w2 = emit (Info ''Data processing completed'') w1"
  have ld: "load_data toy_pandas (csv_init ''sales.csv'' ''out'') sales_world = (Inr (), p1, w1)"
    by (simp add: load_data_def read_sales csv_init_def p1_def w1_def)
  have d: "data p1 = Some sales"
    by (simp add: p1_def)
  have pd: "process_data toy_pandas p1 w1 = (Inr (projr (fst (process_data toy_pandas p1 w1))), p1, w2)"
    by (simp add: process_data_loaded [OF d wf_sales] w2_def)
  have w2: "w2 = \<lparr>fs = [[''work''] \<mapsto> Directory, [''work'', ''sales.csv''] \<mapsto> TextFile sales_csv],
      cwd = [''work''],
      log = [Info ''Successfully loaded data from sales.csv'', Info ''Data processing completed'']\<rparr>"
    by (simp add: w2_def w1_def emit_def sales_world_def)
  have mk: "makedirs ''out'' w2 =
      (None, w2\<lparr>fs := (fs w2)([''work'', ''out''] \<mapsto> Directory)\<rparr>)"
    by (simp add: makedirs_def start_def w2)
  have sr: "save_results toy_pandas stats p1 w2 =
     (Inr (), p1, 
      \<lparr>fs = [[''work''] \<mapsto> Directory, [''work'', ''sales.csv''] \<mapsto> TextFile sales_csv,
            [''work'', ''out''] \<mapsto> Directory,
            [''work'', ''out'', ''statistics.json''] \<mapsto> TextFile (text_of ''{}''),
            [''work'', ''out'', ''processed_data.csv''] \<mapsto> TextFile sales_csv],
      cwd = [''work''],
      log = [Info ''Successfully loaded data from sales.csv'',
             Info ''Data processing completed'',
             Info ''Statistics saved to out/statistics.json'',
             Info ''Processed data saved to out/processed_data.csv'']\<rparr>)" for stats
    by (simp add: save_results_def Let_def p1_def mk path_join_def write_text_def
        strip_slashes_def start_def emit_def toy_pandas_def)
       (simp add: w2)
  show ?thesis
    unfolding csv_main_def Let_def ld prod.case sum.case
    by (subst pd) (simp add: sr emit_def sales_done_def)
qed

lemma sales_lines:
  "read_data \<lparr>lp_input_file = ''sales.csv''\<rparr> w =
     (Inr [text_of ''qty,price,city'', text_of ''1,2.0,Oslo'', text_of ''2,,'',
           text_of ''3,4.0,Rome''], w)"
  if "read_text w ''sales.csv'' = Inr sales_csv"
  using that
  by (simp add: read_data_def)
     (simp add: sales_csv_def text_of_def strip_def lstrip_def rstrip_def isspace_def)

text \<open>
  Claim C9, as amended. The report of \<open>process_data\<close> depends on the loaded frame and on
  nothing else, neither on the world nor on the rest of the processor. \<open>process_data\<close>
  leaves the processor, its frame included, the file system and the working directory as
  they were, and the frame that \<open>load_data\<close> stored is what \<open>save_results\<close> writes: reading
  \<open>processed_data.csv\<close> back gives that frame's serialisation. \<open>process_data\<close> is not free
  of output: when it succeeds it emits one log record, and none when it fails. In line
  mode the analysis adds no effect to those of loading: after \<open>read_data\<close> has returned
  the lines, the result of \<open>process\<close> is \<open>analyze_data\<close> of them and the world is the one
  \<open>read_data\<close> was given.
\<close>

theorem process_data_effects:
  "fst (snd (process_data L p w)) = p \<and>
   fs (snd (snd (process_data L p w))) = fs w \<and>
   cwd (snd (snd (process_data L p w))) = cwd w \<and>
   log (snd (snd (process_data L p w))) =
     (if isl (fst (process_data L p w)) then log w
      else log w @ [Info ''Data processing completed'']) \<and>
   (\<forall>p' w'. data p' = data p \<longrightarrow> fst (process_data L p' w') = fst (process_data L p w)) \<and>
   (\<forall>df. read_csv L w inp = Inr df \<and> fst (csv_main L inp out w) = 0 \<longrightarrow>
      read_text (snd (csv_main L inp out w)) (path_join out ''processed_data.csv'') =
        Inr (to_csv L df)) \<and>
   (\<forall>ds w2. read_data lp (emit (Info (''Processing file: '' @ lp_input_file lp)) w) = (Inr ds, w2) \<longrightarrow>
      process lp w = (analyze_data ds, emit (Info (''Processing file: '' @ lp_input_file lp)) w))"
proof -
  have a: "\<forall>p' w'. data p' = data p \<longrightarrow> fst (process_data L p' w') = fst (process_data L p w)"
    using process_data_report by blast
  have b: "\<forall>df. read_csv L w inp = Inr df \<and> fst (csv_main L inp out w) = 0 \<longrightarrow>
      read_text (snd (csv_main L inp out w)) (path_join out ''processed_data.csv'') =
        Inr (to_csv L df)"
    using csv_main_persists by blast
  have c: "\<forall>ds w2. read_data lp (emit (Info (''Processing file: '' @ lp_input_file lp)) w) = (Inr ds, w2) \<longrightarrow>
      process lp w = (analyze_data ds, emit (Info (''Processing file: '' @ lp_input_file lp)) w)"
  proof (intro allI impI)
    fix ds w2
    assume r: "read_data lp (emit (Info (''Processing file: '' @ lp_input_file lp)) w) = (Inr ds, w2)"
    then have "w2 = emit (Info (''Processing file: '' @ lp_input_file lp)) w"
      by (rule read_data_world)
    then show "process lp w = (analyze_data ds, emit (Info (''Processing file: '' @ lp_input_file lp)) w)"
      using process_after_read [OF r] by simp
  qed
  have s: "fst (snd (process_data L p w)) = p"
    "fs (snd (snd (process_data L p w))) = fs w"
    "cwd (snd (snd (process_data L p w))) = cwd w"
    "log (snd (snd (process_data L p w))) =
       (if isl (fst (process_data L p w)) then log w
        else log w @ [Info ''Data processing completed''])"
    using process_data_state [of L p w] by simp_all
  show ?thesis
    by (intro conjI) (fact s a b c)+
qed

text \<open>The amended C9 on the sales frame and on a run of the whole CSV script.\<close>

theorem process_data_effects_witness:
  "fst (process_data toy_pandas (loaded sales) sales_world) =
     Inr \<lparr>row_count = 3, column_count = 3,
          missing_values = [(text_of ''qty'', 0), (text_of ''price'', 1), (text_of ''city'', 1)],
          numeric_stats =
            [(text_of ''qty'',
              [(''count'', FloatCell 3), (''mean'', FloatCell 2), (''std'', FloatCell 1),
               (''min'', FloatCell 1), (''25%'', FloatCell (3 / 2)), (''50%'', FloatCell 2),
               (''75%'', FloatCell (5 / 2)), (''max'', FloatCell 3)]),
             (text_of ''price'',
              [(''count'', FloatCell 2), (''mean'', FloatCell 3), (''std'', FloatCell (sqrt 2)),
               (''min'', FloatCell 2), (''25%'', FloatCell (5 / 2)), (''50%'', FloatCell 3),
               (''75%'', FloatCell (7 / 2)), (''max'', FloatCell 4)])]\<rparr> \<and>
   fst (process_data toy_pandas (loaded sales) empty_world) =
     fst (process_data toy_pandas (loaded sales) sales_world) \<and>
   snd (process_data toy_pandas (loaded sales) sales_world) =
     (loaded sales, emit (Info ''Data processing completed'') sales_world) \<and>
   read_csv toy_pandas sales_world ''sales.csv'' = Inr sales \<and>
   csv_main toy_pandas ''sales.csv'' ''out'' sales_world = (0, sales_done) \<and>
   read_text sales_done ''out/processed_data.csv'' = Inr (to_csv toy_pandas sales) \<and>
   process \<lparr>lp_input_file = ''sales.csv''\<rparr> sales_world =
     (analyze_data [text_of ''qty,price,city'', text_of ''1,2.0,Oslo'', text_of ''2,,'',
                    text_of ''3,4.0,Rome''],
      emit (Info ''Processing file: sales.csv'') sales_world)"
proof -
  have d: "data (loaded sales) = Some sales"
    by (simp add: loaded_def)
  have pj: "path_join ''out'' ''processed_data.csv'' = ''out/processed_data.csv''"
    by (simp add: path_join_def)
  have st: "snd (process_data toy_pandas (loaded sales) sales_world) =
     (loaded sales, emit (Info ''Data processing completed'') sales_world)"
    by (simp add: process_data_loaded [OF d wf_sales])
  have rt: "read_text sales_world ''sales.csv'' = Inr sales_csv"
    by (simp add: path_defs sales_world_def)
  have rd: "read_data \<lparr>lp_input_file = ''sales.csv''\<rparr>
        (emit (Info (''Processing file: '' @ lp_input_file \<lparr>lp_input_file = ''sales.csv''\<rparr>)) sales_world) =
     (Inr [text_of ''qty,price,city'', text_of ''1,2.0,Oslo'', text_of ''2,,'',
           text_of ''3,4.0,Rome''],
      emit (Info (''Processing file: '' @ lp_input_file \<lparr>lp_input_file = ''sales.csv''\<rparr>)) sales_world)"
    by (rule sales_lines) (simp add: rt)
  show ?thesis
    using process_data_effects [of toy_pandas "loaded sales" sales_world "''sales.csv''" "''out''"
        "\<lparr>lp_input_file = ''sales.csv''\<rparr>"]
      sales_report [OF d] st read_sales rd
    by (simp add: main_sales pj d)
qed

text \<open>
  C9 as the specification states it fails: \<open>process_data\<close> on a loaded frame writes a
  record to the log, which is output.
\<close>

theorem process_data_logs_counterexample:
  "log empty_world = [] \<and>
   log (snd (snd (process_data toy_pandas (loaded sales) empty_world))) =
     [Info ''Data processing completed'']"
  by (simp add: process_data_loaded [OF _ wf_sales] loaded_def emit_def empty_world_def)

section \<open>A path that does not exist\<close>

lemma resolve_errors:
  "resolve w s = Inl e \<Longrightarrow> e = FileNotFoundError \<or> e = NotADirectoryError"
proof -
  have "walk f pos kind cs = Inl e \<Longrightarrow> e = FileNotFoundError \<or> e = NotADirectoryError"
    for f pos kind cs
    by (induction cs arbitrary: pos kind) (auto split: if_splits option.splits)
  then show "resolve w s = Inl e \<Longrightarrow> e = FileNotFoundError \<or> e = NotADirectoryError"
    by (auto simp: resolve_def split: if_splits)
qed







end
